theory Spec2Isabelle
  imports Main
begin

section \<open>Values of the plugin framework\<close>

text \<open>
  The resource model of \<^verbatim>\<open>main.go\<close> holds framework values: a \<^verbatim>\<open>types.String\<close> is
  null, unknown or a known string, and \<^verbatim>\<open>ValueString()\<close> is the empty string unless the
  value is known; \<^verbatim>\<open>types.Bool\<close> and \<^verbatim>\<open>ValueBool()\<close> likewise, with \<^verbatim>\<open>false\<close>.
  The elements of a \<^verbatim>\<open>types.Map\<close> are arbitrary attribute values, of which the code keeps
  those that are a \<^verbatim>\<open>types.String\<close>.
\<close>

datatype tf_string = StringNull | StringUnknown | StringValue string

fun IsNull :: "tf_string \<Rightarrow> bool" where
  "IsNull StringNull = True"
| "IsNull StringUnknown = False"
| "IsNull (StringValue s) = False"

fun ValueString :: "tf_string \<Rightarrow> string" where
  "ValueString (StringValue s) = s"
| "ValueString StringNull = []"
| "ValueString StringUnknown = []"

datatype tf_bool = BoolNull | BoolUnknown | BoolValue bool

fun ValueBool :: "tf_bool \<Rightarrow> bool" where
  "ValueBool (BoolValue b) = b"
| "ValueBool BoolNull = False"
| "ValueBool BoolUnknown = False"

datatype attr_value = AttrString tf_string | AttrOther

datatype tf_map = MapNull | MapUnknown | MapValue "string \<rightharpoonup> attr_value"

fun Elements :: "tf_map \<Rightarrow> (string \<rightharpoonup> attr_value)" where
  "Elements (MapValue m) = m"
| "Elements MapNull = Map.empty"
| "Elements MapUnknown = Map.empty"

text \<open>The struct \<^verbatim>\<open>fileResourceModel\<close>.\<close>

record fileResourceModel =
  URL :: tf_string
  Filename :: tf_string
  Method :: tf_string
  Headers :: tf_map
  ForceDownload :: tf_bool
  ID :: tf_string
  Sha1 :: tf_string
  Sha256 :: tf_string

text \<open>
  Diagnostics are a list; \<^verbatim>\<open>Append\<close> is list append, \<^verbatim>\<open>AddError\<close> and
  \<^verbatim>\<open>AddWarning\<close> add one diagnostic with a summary and a detail at the end.
\<close>

datatype diagnostic = ErrorDiagnostic string string | WarningDiagnostic string string

fun is_error :: "diagnostic \<Rightarrow> bool" where
  "is_error (ErrorDiagnostic s d) = True"
| "is_error (WarningDiagnostic s d) = False"

definition HasError :: "diagnostic list \<Rightarrow> bool" where
  "HasError ds = list_ex is_error ds"

text \<open>
  \<^verbatim>\<open>req.Plan.Get(ctx, &plan)\<close> and \<^verbatim>\<open>req.State.Get(ctx, &state)\<close> give diagnostics and
  fill the model; a request is the outcome of that call.
\<close>

record request_data =
  Get_diags :: "diagnostic list"
  Get_model :: fileResourceModel

text \<open>
  What a lifecycle function did with \<^verbatim>\<open>resp.State\<close>: nothing, \<^verbatim>\<open>RemoveResource\<close>, or
  \<^verbatim>\<open>Set\<close> with a model (which, for this model type, gives no diagnostics).
\<close>

datatype state_action = StateUntouched | StateRemoved | StateSet fileResourceModel

record response =
  Diagnostics :: "diagnostic list"
  State :: state_action

section \<open>The world outside: HTTP and the file system\<close>

type_synonym bytes = string

text \<open>
  The effects of one invocation, in the order in which the code performs them: each
  library call with its arguments and its outcome. The checksum computation is recorded
  too, so that its place in the sequence can be stated. An error is its message
  (\<^verbatim>\<open>err.Error()\<close>); for \<^verbatim>\<open>os.Stat\<close> the error is kept apart as the one that
  \<^verbatim>\<open>os.IsNotExist\<close> recognises (ENOENT) or any other one (ENOTDIR, EACCES, ...).
\<close>

datatype os_error = ErrNotExist | ErrOther string

record http_response =
  StatusCode :: int
  Status :: string
  Body :: "string + bytes"

datatype event =
    EvStat string "os_error option"
  | EvNewRequest string string "string option"
  | EvDo string string "string + http_response"
  | EvMkdirAll string "string option"
  | EvCreate string "string option"
  | EvReadAll "string + bytes"
  | EvChecksums bytes
  | EvWrite string bytes "(nat \<times> string) option"

record world =
  files :: "string \<rightharpoonup> bytes"
  trace :: "event list"

definition emit :: "event \<Rightarrow> world \<Rightarrow> world" where
  "emit e w = w\<lparr>trace := trace w @ [e]\<rparr>"

text \<open>
  The outcomes of the library calls are parameters. Each lifecycle function makes each
  call at most once, so an outcome is a function of the call's arguments.
  \<^verbatim>\<open>Body\<close> is the outcome of \<^verbatim>\<open>io.ReadAll\<close> on the response body. A failing \<^verbatim>\<open>Write\<close>
  gives the number of bytes that reached the file and the error.

  The world holds the regular files. What \<^verbatim>\<open>os.Stat\<close> finds at a path that they do not
  decide is a parameter too: something that is not a regular file stands there (a
  directory) and the call succeeds, or the call fails with an error other than
  not-exist (a component of the path is not a directory, a directory may not be
  searched). \<^verbatim>\<open>unicode_ToUpper\<close> is \<^verbatim>\<open>strings.ToUpper\<close> on the strings that hold a byte
  outside ASCII, where Go maps the runes with the Unicode tables.
\<close>

datatype stat_other = StatSucceeds | StatFails string

record env =
  os_Stat_other :: "string \<Rightarrow> stat_other option"
  unicode_ToUpper :: "string \<Rightarrow> string"
  http_NewRequest :: "string \<Rightarrow> string \<Rightarrow> string option"
  client_Do :: "string \<Rightarrow> string \<Rightarrow> (string \<rightharpoonup> string) \<Rightarrow> string + http_response"
  filepath_Dir :: "string \<Rightarrow> string"
  os_MkdirAll :: "string \<Rightarrow> string option"
  os_Create :: "string \<Rightarrow> string option"
  out_Write :: "string \<Rightarrow> bytes \<Rightarrow> (nat \<times> string) option"
  sha1_hex :: "bytes \<Rightarrow> string"
  sha256_hex :: "bytes \<Rightarrow> string"

text \<open>
  \<^verbatim>\<open>os.Stat\<close>: where the parameter decides nothing, the call succeeds on a regular file
  of the world and fails with not-exist otherwise. \<^verbatim>\<open>os.IsNotExist\<close> holds of the
  not-exist error only.
\<close>

definition os_Stat :: "env \<Rightarrow> world \<Rightarrow> string \<Rightarrow> os_error option" where
  "os_Stat env w p =
     (case os_Stat_other env p of
        Some StatSucceeds \<Rightarrow> None
      | Some (StatFails msg) \<Rightarrow> Some (ErrOther msg)
      | None \<Rightarrow> (case files w p of None \<Rightarrow> Some ErrNotExist | Some bs \<Rightarrow> None))"

fun os_IsNotExist :: "os_error option \<Rightarrow> bool" where
  "os_IsNotExist (Some ErrNotExist) = True"
| "os_IsNotExist (Some (ErrOther msg)) = False"
| "os_IsNotExist None = False"

text \<open>
  \<^verbatim>\<open>strings.ToUpper\<close>: on a string of ASCII bytes the letters a to z are mapped and every
  other byte is kept, as Go does it; a string with a byte from 128 on goes through the
  Unicode mapping.
\<close>

definition to_upper_char :: "char \<Rightarrow> char" where
  "to_upper_char c =
     (if 97 \<le> (of_char c :: nat) \<and> (of_char c :: nat) \<le> 122
      then char_of ((of_char c :: nat) - 32) else c)"

definition strings_ToUpper :: "env \<Rightarrow> string \<Rightarrow> string" where
  "strings_ToUpper env s =
     (if list_all (\<lambda>c. (of_char c :: nat) < 128) s then map to_upper_char s
      else unicode_ToUpper env s)"

section \<open>Checksums\<close>

text \<open>
  Modelled from the spec: \<^verbatim>\<open>genFileChecksums\<close> and the struct \<^verbatim>\<open>fileChecksums\<close> are used by
  \<^verbatim>\<open>downloadFile\<close> but defined outside the given sources. The spec's checksum engine
  gives, for a byte sequence, the pair of its hexadecimal SHA-1 and SHA-256 digests and
  never fails; the two digest functions are parameters.
\<close>

record fileChecksums =
  sha1Hex :: string
  sha256Hex :: string

definition genFileChecksums :: "env \<Rightarrow> bytes \<Rightarrow> fileChecksums" where
  "genFileChecksums env bs = \<lparr>sha1Hex = sha1_hex env bs, sha256Hex = sha256_hex env bs\<rparr>"

section \<open>downloadFile\<close>

text \<open>
  The function returns at the first failure. \<^verbatim>\<open>os.Create\<close> leaves an empty file; the body
  is read after that; the checksums are computed from the bytes read; the bytes are
  written last. When the write fails the source returns the checksums together with
  the error, and every caller looks at the error only: the model returns the error.
\<close>

definition downloadFile ::
  "env \<Rightarrow> string \<Rightarrow> string \<Rightarrow> string \<Rightarrow> (string \<rightharpoonup> string) \<Rightarrow> world
     \<Rightarrow> (string + fileChecksums) \<times> world" where
  "downloadFile env method url path headers w =
     (let w1 = emit (EvNewRequest method url (http_NewRequest env method url)) w in
      case http_NewRequest env method url of
        Some err \<Rightarrow> (Inl err, w1)
      | None \<Rightarrow>
     (let w2 = emit (EvDo method url (client_Do env method url headers)) w1 in
      case client_Do env method url headers of
        Inl err \<Rightarrow> (Inl err, w2)
      | Inr resp \<Rightarrow>
      if StatusCode resp \<noteq> 200
      then (Inl (''failed to download file: '' @ Status resp), w2)
      else
     (let dir = filepath_Dir env path;
          w3 = emit (EvMkdirAll dir (os_MkdirAll env dir)) w2 in
      case os_MkdirAll env dir of
        Some err \<Rightarrow> (Inl err, w3)
      | None \<Rightarrow>
     (let w4 = emit (EvCreate path (os_Create env path)) w3 in
      case os_Create env path of
        Some err \<Rightarrow> (Inl err, w4)
      | None \<Rightarrow>
     (let w5 = w4\<lparr>files := (files w4)(path \<mapsto> [])\<rparr>;
          w6 = emit (EvReadAll (Body resp)) w5 in
      case Body resp of
        Inl err \<Rightarrow> (Inl err, w6)
      | Inr bs \<Rightarrow>
     (let checksums = genFileChecksums env bs;
          w7 = emit (EvChecksums bs) w6;
          w8 = emit (EvWrite path bs (out_Write env path bs)) w7 in
      case out_Write env path bs of
        Some (n, err) \<Rightarrow> (Inl err, w8\<lparr>files := (files w8)(path \<mapsto> take n bs)\<rparr>)
      | None \<Rightarrow> (Inr checksums, w8\<lparr>files := (files w8)(path \<mapsto> bs)\<rparr>)))))))"

section \<open>The lifecycle functions\<close>

text \<open>
  The validator that \<^verbatim>\<open>Schema\<close> puts on the method attribute,
  \<^verbatim>\<open>stringvalidator.OneOf(http.MethodGet, http.MethodPost)\<close>: a known value has to be
  \<open>GET\<close> or \<open>POST\<close>, letter for letter; a null or unknown value is not judged.
\<close>

definition method_OneOf :: "tf_string \<Rightarrow> bool" where
  "method_OneOf v =
     (case v of
        StringValue s \<Rightarrow> s = ''GET'' \<or> s = ''POST''
      | StringNull \<Rightarrow> True
      | StringUnknown \<Rightarrow> True)"

text \<open>The loop that copies the string-valued elements of the headers attribute.\<close>

definition string_headers :: "(string \<rightharpoonup> attr_value) \<Rightarrow> (string \<rightharpoonup> string)" where
  "string_headers elems =
     (\<lambda>k. case elems k of
            Some (AttrString strVal) \<Rightarrow> Some (ValueString strVal)
          | Some AttrOther \<Rightarrow> None
          | None \<Rightarrow> None)"

definition Create :: "env \<Rightarrow> request_data \<Rightarrow> world \<Rightarrow> response \<times> world" where
  "Create env req w =
     (let plan = Get_model req;
          diags = Get_diags req in
      if HasError diags then (\<lparr>Diagnostics = diags, State = StateUntouched\<rparr>, w)
      else
     (let method = (if \<not> IsNull (Method plan) \<and> ValueString (Method plan) \<noteq> []
                    then strings_ToUpper env (ValueString (Method plan)) else ''GET'');
          headers = string_headers (Elements (Headers plan)) in
      case downloadFile env method (ValueString (URL plan)) (ValueString (Filename plan))
             headers w of
        (Inl err, w') \<Rightarrow>
          (\<lparr>Diagnostics = diags @ [ErrorDiagnostic ''Download Failed'' err],
            State = StateUntouched\<rparr>, w')
      | (Inr checksums, w') \<Rightarrow>
          (\<lparr>Diagnostics = diags,
            State = StateSet (plan\<lparr>ID := StringValue (sha1Hex checksums),
                                   Sha1 := StringValue (sha1Hex checksums),
                                   Sha256 := StringValue (sha256Hex checksums)\<rparr>)\<rparr>, w')))"

definition Read :: "env \<Rightarrow> request_data \<Rightarrow> world \<Rightarrow> response \<times> world" where
  "Read env req w =
     (let state = Get_model req;
          diags = Get_diags req in
      if HasError diags then (\<lparr>Diagnostics = diags, State = StateUntouched\<rparr>, w)
      else
     (let outputPath = ValueString (Filename state);
          w0 = emit (EvStat outputPath (os_Stat env w outputPath)) w in
      if os_IsNotExist (os_Stat env w outputPath)
      then (\<lparr>Diagnostics = diags, State = StateRemoved\<rparr>, w0)
      else
     (let method = (if \<not> IsNull (Method state) \<and> ValueString (Method state) \<noteq> []
                    then strings_ToUpper env (ValueString (Method state)) else ''GET'');
          headers = string_headers (Elements (Headers state)) in
      case downloadFile env method (ValueString (URL state)) (ValueString (Filename state))
             headers w0 of
        (Inl err, w') \<Rightarrow>
          (\<lparr>Diagnostics = diags @ [ErrorDiagnostic ''Download Failed'' err],
            State = StateUntouched\<rparr>, w')
      | (Inr checksums, w') \<Rightarrow>
          if sha1Hex checksums \<noteq> ValueString (ID state)
          then (\<lparr>Diagnostics = diags, State = StateRemoved\<rparr>, w')
          else
          (\<lparr>Diagnostics = diags,
            State = StateSet (state\<lparr>ID := StringValue (sha1Hex checksums),
                                    Sha1 := StringValue (sha1Hex checksums),
                                    Sha256 := StringValue (sha256Hex checksums)\<rparr>)\<rparr>, w'))))"

definition Update :: "env \<Rightarrow> request_data \<Rightarrow> request_data \<Rightarrow> world \<Rightarrow> response \<times> world" where
  "Update env req_plan req_state w =
     (let plan = Get_model req_plan;
          state = Get_model req_state;
          diags = Get_diags req_plan @ Get_diags req_state in
      if HasError diags then (\<lparr>Diagnostics = diags, State = StateUntouched\<rparr>, w)
      else
     (let method = (if \<not> IsNull (Method plan) \<and> ValueString (Method plan) \<noteq> []
                    then strings_ToUpper env (ValueString (Method plan)) else ''GET'');
          headers = string_headers (Elements (Headers plan)) in
      if \<not> ValueBool (ForceDownload state)
         \<and> ValueString (URL plan) = ValueString (URL state)
      then (\<lparr>Diagnostics = diags @ [WarningDiagnostic ''same file'' (ValueString (URL plan))],
             State = StateSet state\<rparr>, w)
      else
      case downloadFile env method (ValueString (URL plan)) (ValueString (Filename plan))
             headers w of
        (Inl err, w') \<Rightarrow>
          (\<lparr>Diagnostics = diags @ [ErrorDiagnostic ''Download Failed'' err],
            State = StateUntouched\<rparr>, w')
      | (Inr checksums, w') \<Rightarrow>
          (\<lparr>Diagnostics = diags,
            State = StateSet (plan\<lparr>ID := StringValue (sha1Hex checksums),
                                   Sha1 := StringValue (sha1Hex checksums),
                                   Sha256 := StringValue (sha256Hex checksums)\<rparr>)\<rparr>, w')))"

section \<open>Notions used in the statements\<close>

text \<open>
  The framework calls one of the three lifecycle functions; an invocation is that call
  with its request, and the model it works from is the plan for \<^verbatim>\<open>Create\<close> and
  \<^verbatim>\<open>Update\<close> and the previous state for \<^verbatim>\<open>Read\<close>.
\<close>

datatype call =
    CallCreate request_data
  | CallRead request_data
  | CallUpdate request_data request_data

fun invoke :: "env \<Rightarrow> call \<Rightarrow> world \<Rightarrow> response \<times> world" where
  "invoke env (CallCreate req) w = Create env req w"
| "invoke env (CallRead req) w = Read env req w"
| "invoke env (CallUpdate req_plan req_state) w = Update env req_plan req_state w"

fun call_model :: "call \<Rightarrow> fileResourceModel" where
  "call_model (CallCreate req) = Get_model req"
| "call_model (CallRead req) = Get_model req"
| "call_model (CallUpdate req_plan req_state) = Get_model req_plan"

text \<open>The methods of the requests that a sequence of events builds.\<close>

fun request_methods :: "event list \<Rightarrow> string list" where
  "request_methods [] = []"
| "request_methods (EvNewRequest method url outcome # evs) = method # request_methods evs"
| "request_methods (e # evs) = request_methods evs"

text \<open>
  The states that the lifecycle persists: a state set by \<^verbatim>\<open>Create\<close>, or set by
  \<^verbatim>\<open>Read\<close> or \<^verbatim>\<open>Update\<close> when the previous state of the request is itself a persisted
  state. The world and the outcomes of the library calls are arbitrary at every step.
\<close>

inductive persisted :: "fileResourceModel \<Rightarrow> bool" where
  after_Create:
    "Create env req w = (resp, w') \<Longrightarrow> State resp = StateSet m \<Longrightarrow> persisted m"
| after_Read:
    "persisted (Get_model req) \<Longrightarrow> Read env req w = (resp, w') \<Longrightarrow> State resp = StateSet m
       \<Longrightarrow> persisted m"
| after_Update:
    "persisted (Get_model req_state) \<Longrightarrow> Update env req_plan req_state w = (resp, w')
       \<Longrightarrow> State resp = StateSet m \<Longrightarrow> persisted m"

text \<open>The events that an invocation added to the trace.\<close>

definition new_events :: "world \<Rightarrow> world \<Rightarrow> event list" where
  "new_events w w' = drop (length (trace w)) (trace w')"

text \<open>\<open>precedes a b evs\<close>: event \<open>a\<close> occurs in \<open>evs\<close> and \<open>b\<close> occurs later.\<close>

fun precedes :: "event \<Rightarrow> event \<Rightarrow> event list \<Rightarrow> bool" where
  "precedes a b [] = False"
| "precedes a b (x # xs) = ((x = a \<and> b \<in> set xs) \<or> precedes a b xs)"

text \<open>
  The outcomes under which \<^const>\<open>downloadFile\<close> returns without an error, the body
  being \<open>bs\<close>: the request is built, the server answers with status 200, the directory
  and the file are created, the body is read and the write succeeds.
\<close>

definition download_succeeds ::
  "env \<Rightarrow> string \<Rightarrow> string \<Rightarrow> string \<Rightarrow> (string \<rightharpoonup> string) \<Rightarrow> bytes \<Rightarrow> bool" where
  "download_succeeds env method url path headers bs =
     (http_NewRequest env method url = None
      \<and> (case client_Do env method url headers of
           Inl err \<Rightarrow> False
         | Inr resp \<Rightarrow> StatusCode resp = 200 \<and> Body resp = Inr bs)
      \<and> os_MkdirAll env (filepath_Dir env path) = None
      \<and> os_Create env path = None
      \<and> out_Write env path bs = None)"

text \<open>The method and the headers that a lifecycle function computes from a model.\<close>

abbreviation method_of :: "env \<Rightarrow> fileResourceModel \<Rightarrow> string" where
  "method_of env m \<equiv>
     (if \<not> IsNull (Method m) \<and> ValueString (Method m) \<noteq> []
      then strings_ToUpper env (ValueString (Method m)) else ''GET'')"

abbreviation headers_of :: "fileResourceModel \<Rightarrow> (string \<rightharpoonup> string)" where
  "headers_of m \<equiv> string_headers (Elements (Headers m))"

section \<open>Example inputs\<close>

text \<open>
  A server that answers every request with status 200 and the body \<open>abc\<close>, one that
  answers 404, and one whose body cannot be read; a file system on which every call
  succeeds. The digest functions of the examples know the digests of \<open>abc\<close>. The
  state \<open>ex_state\<close> is the one that \<^verbatim>\<open>Create\<close> persists for the plan \<open>ex_model\<close>.
  In \<open>env_notdir\<close> the path \<open>/tmp/out/a.bin/x\<close> lies below the regular file
  \<open>/tmp/out/a.bin\<close>: \<^verbatim>\<open>os.Stat\<close> and \<^verbatim>\<open>os.MkdirAll\<close> fail with not-a-directory. No
  example holds a byte outside ASCII.
\<close>

definition ex_sha1 :: "bytes \<Rightarrow> string" where
  "ex_sha1 bs = (if bs = ''abc'' then ''a9993e364706816aba3e25717850c26c9cd0d89d'' else [])"

definition ex_sha256 :: "bytes \<Rightarrow> string" where
  "ex_sha256 bs =
     (if bs = ''abc''
      then ''ba7816bf8f01cfea414140de5dae2223b00361a396177a9cb410ff61f20015ad'' else [])"

definition ex_env :: "(string + http_response) \<Rightarrow> env" where
  "ex_env answer =
     \<lparr>os_Stat_other = (\<lambda>path. None),
      unicode_ToUpper = (\<lambda>s. s),
      http_NewRequest = (\<lambda>method url. None),
      client_Do = (\<lambda>method url headers. answer),
      filepath_Dir = (\<lambda>path. ''/tmp/out''),
      os_MkdirAll = (\<lambda>dir. None),
      os_Create = (\<lambda>path. None),
      out_Write = (\<lambda>path bs. None),
      sha1_hex = ex_sha1,
      sha256_hex = ex_sha256\<rparr>"

definition ex_404 :: http_response where
  "ex_404 = \<lparr>StatusCode = 404, Status = ''404 Not Found'', Body = Inr ''gone''\<rparr>"

definition ex_200 :: http_response where
  "ex_200 = \<lparr>StatusCode = 200, Status = ''200 OK'', Body = Inr ''abc''\<rparr>"

definition ex_cut :: http_response where
  "ex_cut = \<lparr>StatusCode = 200, Status = ''200 OK'', Body = Inl ''unexpected EOF''\<rparr>"

definition env_200 :: env where
  "env_200 = ex_env (Inr ex_200)"

definition env_404 :: env where
  "env_404 = ex_env (Inr ex_404)"

definition env_cut :: env where
  "env_cut = ex_env (Inr ex_cut)"

definition env_notdir :: env where
  "env_notdir =
     env_200\<lparr>os_Stat_other :=
               (\<lambda>path. if path = ''/tmp/out/a.bin/x''
                       then Some (StatFails ''stat /tmp/out/a.bin/x: not a directory'')
                       else None),
             filepath_Dir := (\<lambda>path. ''/tmp/out/a.bin''),
             os_MkdirAll := (\<lambda>dir. Some ''mkdir /tmp/out/a.bin: not a directory'')\<rparr>"

definition ex_model :: fileResourceModel where
  "ex_model =
     \<lparr>URL = StringValue ''http://h/a.bin'', Filename = StringValue ''/tmp/out/a.bin'',
      Method = StringValue [], Headers = MapNull, ForceDownload = BoolNull,
      ID = StringUnknown, Sha1 = StringUnknown, Sha256 = StringUnknown\<rparr>"

definition ex_state :: fileResourceModel where
  "ex_state =
     ex_model\<lparr>ID := StringValue ''a9993e364706816aba3e25717850c26c9cd0d89d'',
              Sha1 := StringValue ''a9993e364706816aba3e25717850c26c9cd0d89d'',
              Sha256 := StringValue
                ''ba7816bf8f01cfea414140de5dae2223b00361a396177a9cb410ff61f20015ad''\<rparr>"

definition ex_req :: "fileResourceModel \<Rightarrow> request_data" where
  "ex_req m = \<lparr>Get_diags = [], Get_model = m\<rparr>"

definition ex_empty :: world where
  "ex_empty = \<lparr>files = Map.empty, trace = []\<rparr>"

definition ex_disk :: world where
  "ex_disk = \<lparr>files = [''/tmp/out/a.bin'' \<mapsto> ''old''], trace = []\<rparr>"

section \<open>Facts about the model\<close>

lemmas run_defs =
  Let_def Create_def Read_def Update_def downloadFile_def emit_def genFileChecksums_def
  os_Stat_def HasError_def string_headers_def new_events_def

lemmas ex_defs =
  ex_env_def env_200_def env_404_def env_cut_def env_notdir_def ex_200_def ex_404_def ex_cut_def
  ex_model_def ex_state_def ex_req_def ex_empty_def ex_disk_def ex_sha1_def ex_sha256_def

text \<open>A successful download: its result, the file it leaves and the events, in order.\<close>

lemma downloadFile_succeeds:
  assumes "download_succeeds env method url path headers bs"
  shows "downloadFile env method url path headers w =
     (Inr (genFileChecksums env bs),
      w\<lparr>files := (files w)(path \<mapsto> bs),
        trace := trace w @
          [EvNewRequest method url None, EvDo method url (client_Do env method url headers),
           EvMkdirAll (filepath_Dir env path) None, EvCreate path None,
           EvReadAll (Inr bs), EvChecksums bs, EvWrite path bs None]\<rparr>)"
  using assms
  by (auto simp: download_succeeds_def downloadFile_def emit_def Let_def split: sum.splits)

text \<open>\<^const>\<open>download_succeeds\<close> is exactly the case in which \<^const>\<open>downloadFile\<close> returns no error.\<close>

lemma downloadFile_Inr_iff:
  "(\<exists>checksums. fst (downloadFile env method url path headers w) = Inr checksums)
     \<longleftrightarrow> (\<exists>bs. download_succeeds env method url path headers bs)"
  by (auto simp: download_succeeds_def downloadFile_def emit_def Let_def
      split: sum.splits option.splits)

lemma strings_ToUpper_GET: "strings_ToUpper env ''GET'' = ''GET''"
  by (simp add: strings_ToUpper_def to_upper_char_def)

lemma strings_ToUpper_POST: "strings_ToUpper env ''POST'' = ''POST''"
  by (simp add: strings_ToUpper_def to_upper_char_def)

text \<open>The method of every request that an invocation builds, for any method attribute.\<close>

lemma request_method_upper:
  assumes "invoke env c w = (resp, w')"
      and "meth \<in> set (request_methods (new_events w w'))"
  shows "meth = method_of env (call_model c)"
  using assms
  by (cases c)
    (auto simp: Create_def Read_def Update_def downloadFile_def emit_def Let_def
      new_events_def
      split: option.splits sum.splits prod.splits if_splits)

text \<open>The example runs.\<close>

lemma ex_Create_200:
  "Create env_200 (ex_req ex_model) ex_empty =
     (\<lparr>Diagnostics = [], State = StateSet ex_state\<rparr>,
      \<lparr>files = [''/tmp/out/a.bin'' \<mapsto> ''abc''],
       trace = [EvNewRequest ''GET'' ''http://h/a.bin'' None,
                EvDo ''GET'' ''http://h/a.bin'' (Inr ex_200),
                EvMkdirAll ''/tmp/out'' None, EvCreate ''/tmp/out/a.bin'' None,
                EvReadAll (Inr ''abc''), EvChecksums ''abc'',
                EvWrite ''/tmp/out/a.bin'' ''abc'' None]\<rparr>)"
  by (simp add: ex_defs run_defs)

lemma ex_Create_404:
  "Create env_404 (ex_req ex_model) ex_disk =
     (\<lparr>Diagnostics =
         [ErrorDiagnostic ''Download Failed'' ''failed to download file: 404 Not Found''],
       State = StateUntouched\<rparr>,
      \<lparr>files = [''/tmp/out/a.bin'' \<mapsto> ''old''],
       trace = [EvNewRequest ''GET'' ''http://h/a.bin'' None,
                EvDo ''GET'' ''http://h/a.bin'' (Inr ex_404)]\<rparr>)"
  by (simp add: ex_defs run_defs)

lemma ex_Create_cut:
  "Create env_cut (ex_req ex_model) ex_disk =
     (\<lparr>Diagnostics = [ErrorDiagnostic ''Download Failed'' ''unexpected EOF''],
       State = StateUntouched\<rparr>,
      \<lparr>files = [''/tmp/out/a.bin'' \<mapsto> []],
       trace = [EvNewRequest ''GET'' ''http://h/a.bin'' None,
                EvDo ''GET'' ''http://h/a.bin'' (Inr ex_cut),
                EvMkdirAll ''/tmp/out'' None, EvCreate ''/tmp/out/a.bin'' None,
                EvReadAll (Inl ''unexpected EOF'')]\<rparr>)"
  by (simp add: ex_defs run_defs)

lemma ex_download_succeeds:
  "download_succeeds env_200 ''GET'' ''http://h/a.bin'' ''/tmp/out/a.bin'' Map.empty ''abc''"
  by (simp add: download_succeeds_def ex_defs)

section \<open>Update: the skip branch\<close>

text \<open>
  Claim C1. For every \<^verbatim>\<open>Update\<close> invocation (plan and state decoded without an error
  diagnostic) in which the previous state's \<^verbatim>\<open>force_download\<close> is false and the planned
  url equals the state's url, \<^verbatim>\<open>Update\<close> adds exactly one diagnostic, the warning with
  summary \<open>same file\<close>, persists the previous state unchanged, and returns the world as
  it found it: no event is added to the trace (no request, no fetch, no file write, so
  \<^verbatim>\<open>downloadFile\<close> is not called) and no file changes.
\<close>

theorem Update_same_file:
  assumes "\<not> HasError (dp @ ds)"
      and "\<not> ValueBool (ForceDownload state)"
      and "ValueString (URL plan) = ValueString (URL state)"
  shows "Update env \<lparr>Get_diags = dp, Get_model = plan\<rparr> \<lparr>Get_diags = ds, Get_model = state\<rparr> w =
           (\<lparr>Diagnostics = (dp @ ds) @ [WarningDiagnostic ''same file'' (ValueString (URL plan))],
             State = StateSet state\<rparr>, w)"
  using assms by (simp add: Update_def Let_def)

text \<open>
  The example: the plan repeats the url of the state; the file on disk keeps its old
  content and the trace stays empty.
\<close>

theorem Update_same_file_witness:
  "\<not> HasError ([] @ [])
   \<and> \<not> ValueBool (ForceDownload ex_state)
   \<and> ValueString (URL ex_model) = ValueString (URL ex_state)
   \<and> Update env_200 (ex_req ex_model) (ex_req ex_state) ex_disk =
       (\<lparr>Diagnostics = [WarningDiagnostic ''same file'' ''http://h/a.bin''],
         State = StateSet ex_state\<rparr>, ex_disk)"
  using Update_same_file [where dp = "[]" and ds = "[]" and plan = ex_model
      and state = ex_state and env = env_200 and w = ex_disk]
  by (simp add: ex_req_def ex_model_def ex_state_def HasError_def)

section \<open>Read\<close>

text \<open>
  Claim C5, as the spec states it, fails on the code: \<^verbatim>\<open>Read\<close> tests
  \<^verbatim>\<open>os.IsNotExist\<close> on the error of \<^verbatim>\<open>os.Stat\<close>, and a file can be missing while
  \<^verbatim>\<open>os.Stat\<close> fails with another error. In the example the state's filename lies below
  a regular file, no file exists at it, \<^verbatim>\<open>os.Stat\<close> fails with not-a-directory, and
  \<^verbatim>\<open>Read\<close> sends the request, reports an error diagnostic and does not remove the
  resource.
\<close>

theorem Read_missing_file_counterexample:
  "files ex_disk ''/tmp/out/a.bin/x'' = None
   \<and> Read env_notdir (ex_req (ex_state\<lparr>Filename := StringValue ''/tmp/out/a.bin/x''\<rparr>)) ex_disk =
       (\<lparr>Diagnostics =
           [ErrorDiagnostic ''Download Failed'' ''mkdir /tmp/out/a.bin: not a directory''],
         State = StateUntouched\<rparr>,
        \<lparr>files = [''/tmp/out/a.bin'' \<mapsto> ''old''],
         trace = [EvStat ''/tmp/out/a.bin/x''
                    (Some (ErrOther ''stat /tmp/out/a.bin/x: not a directory'')),
                  EvNewRequest ''GET'' ''http://h/a.bin'' None,
                  EvDo ''GET'' ''http://h/a.bin'' (Inr ex_200),
                  EvMkdirAll ''/tmp/out/a.bin''
                    (Some ''mkdir /tmp/out/a.bin: not a directory'')]\<rparr>)"
  by (simp add: ex_defs run_defs)

text \<open>
  Claim C5, amended. For every \<^verbatim>\<open>Read\<close> invocation (state decoded without an error
  diagnostic) where \<^verbatim>\<open>os.Stat\<close> on the state's filename fails with the not-exist error,
  \<^verbatim>\<open>Read\<close> removes the resource from state and returns; the only event is the
  \<^verbatim>\<open>os.Stat\<close> call, so no request is built or sent, and no diagnostic is added.
\<close>

theorem Read_not_exist:
  assumes "\<not> HasError ds"
      and "os_Stat env w (ValueString (Filename state)) = Some ErrNotExist"
  shows "Read env \<lparr>Get_diags = ds, Get_model = state\<rparr> w =
           (\<lparr>Diagnostics = ds, State = StateRemoved\<rparr>,
            w\<lparr>trace := trace w @ [EvStat (ValueString (Filename state)) (Some ErrNotExist)]\<rparr>)"
  using assms by (simp add: Read_def Let_def emit_def)

text \<open>The example: no file on disk, nothing in the way of \<^verbatim>\<open>os.Stat\<close>.\<close>

theorem Read_not_exist_witness:
  "\<not> HasError []
   \<and> os_Stat env_200 ex_empty (ValueString (Filename ex_state)) = Some ErrNotExist
   \<and> Read env_200 (ex_req ex_state) ex_empty =
       (\<lparr>Diagnostics = [], State = StateRemoved\<rparr>,
        \<lparr>files = Map.empty, trace = [EvStat ''/tmp/out/a.bin'' (Some ErrNotExist)]\<rparr>)"
  using Read_not_exist [where ds = "[]" and state = ex_state and w = ex_empty
      and env = env_200]
  by (simp add: ex_defs run_defs)

text \<open>
  Claim C6. For every \<^verbatim>\<open>Read\<close> invocation (state decoded without an error diagnostic)
  where the file exists and the download succeeds with the bytes \<open>bs\<close>: if the hex
  SHA-1 of \<open>bs\<close> differs from the stored id, \<^verbatim>\<open>Read\<close> removes the resource from state
  and adds no diagnostic; if it is equal, \<^verbatim>\<open>Read\<close> persists the state with id, sha1 and
  sha256 set from \<open>bs\<close>.
\<close>

theorem Read_drift_or_refresh:
  assumes "\<not> HasError ds"
      and "files w (ValueString (Filename state)) \<noteq> None"
      and "download_succeeds env (method_of env state) (ValueString (URL state))
             (ValueString (Filename state)) (headers_of state) bs"
  shows "(sha1_hex env bs \<noteq> ValueString (ID state) \<longrightarrow>
            fst (Read env \<lparr>Get_diags = ds, Get_model = state\<rparr> w) =
              \<lparr>Diagnostics = ds, State = StateRemoved\<rparr>)
       \<and> (sha1_hex env bs = ValueString (ID state) \<longrightarrow>
            fst (Read env \<lparr>Get_diags = ds, Get_model = state\<rparr> w) =
              \<lparr>Diagnostics = ds,
               State = StateSet (state\<lparr>ID := StringValue (sha1_hex env bs),
                                       Sha1 := StringValue (sha1_hex env bs),
                                       Sha256 := StringValue (sha256_hex env bs)\<rparr>)\<rparr>)"
  using assms
  by (auto simp: Read_def Let_def os_Stat_def downloadFile_succeeds genFileChecksums_def
      split: option.splits stat_other.splits)

text \<open>
  The example, twice: the stored id is the SHA-1 of the served bytes (the state is
  persisted again), and the stored id is another one (the resource is removed).
\<close>

theorem Read_drift_or_refresh_witness:
  "\<not> HasError []
   \<and> files ex_disk ''/tmp/out/a.bin'' \<noteq> None
   \<and> download_succeeds env_200 ''GET'' ''http://h/a.bin'' ''/tmp/out/a.bin'' Map.empty ''abc''
   \<and> sha1_hex env_200 ''abc'' = ValueString (ID ex_state)
   \<and> fst (Read env_200 (ex_req ex_state) ex_disk) =
        \<lparr>Diagnostics = [], State = StateSet ex_state\<rparr>
   \<and> sha1_hex env_200 ''abc'' \<noteq> ValueString (StringValue ''0000'')
   \<and> fst (Read env_200 (ex_req (ex_state\<lparr>ID := StringValue ''0000''\<rparr>)) ex_disk) =
        \<lparr>Diagnostics = [], State = StateRemoved\<rparr>"
  using Read_drift_or_refresh [where ds = "[]" and state = ex_state and w = ex_disk
      and env = env_200 and bs = "''abc''"]
    Read_drift_or_refresh [where ds = "[]" and state = "ex_state\<lparr>ID := StringValue ''0000''\<rparr>"
      and w = ex_disk and env = env_200 and bs = "''abc''"]
    ex_download_succeeds
  by (simp add: ex_defs string_headers_def HasError_def)

text \<open>
  Claim C9. For every \<^verbatim>\<open>Read\<close> invocation (state decoded without an error diagnostic)
  where the file exists and the download succeeds with the bytes \<open>bs\<close>, the world that
  \<^verbatim>\<open>Read\<close> returns is the one \<^verbatim>\<open>downloadFile\<close> left, before the checksum is compared
  with the stored id: the file at the state's filename holds \<open>bs\<close>, also when the
  comparison then finds a drift and the resource is removed from state.
\<close>

theorem Read_overwrites_before_compare:
  assumes "\<not> HasError ds"
      and "files w (ValueString (Filename state)) \<noteq> None"
      and "download_succeeds env (method_of env state) (ValueString (URL state))
             (ValueString (Filename state)) (headers_of state) bs"
  shows "snd (Read env \<lparr>Get_diags = ds, Get_model = state\<rparr> w) =
           snd (downloadFile env (method_of env state) (ValueString (URL state))
                  (ValueString (Filename state)) (headers_of state)
                  (emit (EvStat (ValueString (Filename state))
                           (os_Stat env w (ValueString (Filename state)))) w))
       \<and> files (snd (Read env \<lparr>Get_diags = ds, Get_model = state\<rparr> w))
            (ValueString (Filename state)) = Some bs
       \<and> (sha1_hex env bs \<noteq> ValueString (ID state) \<longrightarrow>
            State (fst (Read env \<lparr>Get_diags = ds, Get_model = state\<rparr> w)) = StateRemoved)"
  using assms
  by (auto simp: Read_def Let_def os_Stat_def downloadFile_succeeds genFileChecksums_def
      split: option.splits stat_other.splits)

text \<open>
  The example: the stored id is not the SHA-1 of the served bytes; the resource is
  removed from state and the file, which held \<open>old\<close>, holds \<open>abc\<close>.
\<close>

theorem Read_overwrites_before_compare_witness:
  "\<not> HasError []
   \<and> files ex_disk ''/tmp/out/a.bin'' = Some ''old''
   \<and> download_succeeds env_200 ''GET'' ''http://h/a.bin'' ''/tmp/out/a.bin'' Map.empty ''abc''
   \<and> sha1_hex env_200 ''abc'' \<noteq> ValueString (StringValue ''0000'')
   \<and> files (snd (Read env_200 (ex_req (ex_state\<lparr>ID := StringValue ''0000''\<rparr>)) ex_disk))
        ''/tmp/out/a.bin'' = Some ''abc''
   \<and> State (fst (Read env_200 (ex_req (ex_state\<lparr>ID := StringValue ''0000''\<rparr>)) ex_disk)) =
        StateRemoved"
  using Read_overwrites_before_compare [where ds = "[]"
      and state = "ex_state\<lparr>ID := StringValue ''0000''\<rparr>" and w = ex_disk and env = env_200
      and bs = "''abc''"]
    ex_download_succeeds
  by (simp add: ex_defs run_defs)

section \<open>Update: force_download\<close>

text \<open>
  Claim C2. The schema describes \<^verbatim>\<open>force_download\<close> as forcing the download even if the
  url has not changed, and \<^verbatim>\<open>Update\<close> takes the method, the headers, the url and the
  filename from the plan; its skip test alone reads \<^verbatim>\<open>force_download\<close> from the previous
  state. The run below is \<^verbatim>\<open>Update\<close> on a plan that carries \<^verbatim>\<open>force_download = true\<close>
  with the url of the state, the state holding no \<^verbatim>\<open>force_download\<close>, against a server
  that answers 200: the skip branch is taken, the world is returned as it was (no
  event, the file keeps \<open>old\<close>), and the state persisted is the previous one, without
  the plan's \<^verbatim>\<open>force_download\<close>.
\<close>

theorem Update_plan_force_download_skipped:
  "ValueBool (ForceDownload (ex_model\<lparr>ForceDownload := BoolValue True\<rparr>))
   \<and> ValueString (URL (ex_model\<lparr>ForceDownload := BoolValue True\<rparr>)) = ValueString (URL ex_state)
   \<and> Update env_200 (ex_req (ex_model\<lparr>ForceDownload := BoolValue True\<rparr>)) (ex_req ex_state)
        ex_disk =
       (\<lparr>Diagnostics = [WarningDiagnostic ''same file'' ''http://h/a.bin''],
         State = StateSet ex_state\<rparr>, ex_disk)
   \<and> ForceDownload ex_state = BoolNull
   \<and> files ex_disk ''/tmp/out/a.bin'' = Some ''old''
   \<and> trace ex_disk = []"
  by (simp add: ex_defs run_defs)

section \<open>Every invocation: the response to a status other than 200\<close>

text \<open>
  Claim C4. For every \<^verbatim>\<open>Create\<close>, \<^verbatim>\<open>Read\<close> or \<^verbatim>\<open>Update\<close> invocation in which the server
  answers the request with a status other than 200, the response carries the error
  diagnostic \<open>Download Failed\<close> whose detail ends with the status text, no state is
  set or removed, no file changes, and the invocation makes no \<^verbatim>\<open>os.Create\<close> and no
  \<^verbatim>\<open>Write\<close> call.
\<close>

theorem non_200_fails:
  assumes "invoke env c w = (resp, w')"
      and "EvDo meth url (Inr r) \<in> set (new_events w w')"
      and "StatusCode r \<noteq> 200"
  shows "ErrorDiagnostic ''Download Failed'' (''failed to download file: '' @ Status r)
           \<in> set (Diagnostics resp)
       \<and> HasError (Diagnostics resp)
       \<and> State resp = StateUntouched
       \<and> files w' = files w
       \<and> (\<forall>path out. EvCreate path out \<notin> set (new_events w w'))
       \<and> (\<forall>path bs out. EvWrite path bs out \<notin> set (new_events w w'))"
  using assms
  by (cases c)
    (auto simp: Create_def Read_def Update_def downloadFile_def emit_def Let_def
      new_events_def HasError_def
      split: option.splits sum.splits prod.splits if_splits)

text \<open>The example: a 404 answer to \<^verbatim>\<open>Create\<close>, the file on disk holding \<open>old\<close>.\<close>

theorem non_200_fails_witness:
  "EvDo ''GET'' ''http://h/a.bin'' (Inr ex_404)
     \<in> set (new_events ex_disk (snd (invoke env_404 (CallCreate (ex_req ex_model)) ex_disk)))
   \<and> StatusCode ex_404 \<noteq> 200
   \<and> Diagnostics (fst (invoke env_404 (CallCreate (ex_req ex_model)) ex_disk)) =
       [ErrorDiagnostic ''Download Failed'' ''failed to download file: 404 Not Found'']
   \<and> State (fst (invoke env_404 (CallCreate (ex_req ex_model)) ex_disk)) = StateUntouched
   \<and> files (snd (invoke env_404 (CallCreate (ex_req ex_model)) ex_disk)) = files ex_disk"
  using non_200_fails [where env = env_404 and c = "CallCreate (ex_req ex_model)"
      and w = ex_disk and meth = "''GET''" and url = "''http://h/a.bin''" and r = ex_404
      and resp = "fst (invoke env_404 (CallCreate (ex_req ex_model)) ex_disk)"
      and w' = "snd (invoke env_404 (CallCreate (ex_req ex_model)) ex_disk)"]
  by (simp add: ex_Create_404 new_events_def) (simp add: ex_defs)

section \<open>Every invocation: the order of the effects\<close>

text \<open>
  Claim C3, as the spec states it, fails on the code: \<^verbatim>\<open>downloadFile\<close> computes the
  checksums before it writes, and it creates (truncates) the destination file before
  it reads the body. In the example run of \<^verbatim>\<open>Create\<close> the write does not precede the
  checksum computation.
\<close>

theorem download_order_counterexample:
  "new_events ex_empty (snd (invoke env_200 (CallCreate (ex_req ex_model)) ex_empty)) =
     [EvNewRequest ''GET'' ''http://h/a.bin'' None,
      EvDo ''GET'' ''http://h/a.bin'' (Inr ex_200),
      EvMkdirAll ''/tmp/out'' None, EvCreate ''/tmp/out/a.bin'' None,
      EvReadAll (Inr ''abc''), EvChecksums ''abc'',
      EvWrite ''/tmp/out/a.bin'' ''abc'' None]
   \<and> \<not> precedes (EvWrite ''/tmp/out/a.bin'' ''abc'' None) (EvChecksums ''abc'')
         (new_events ex_empty (snd (invoke env_200 (CallCreate (ex_req ex_model)) ex_empty)))
   \<and> \<not> precedes (EvReadAll (Inr ''abc'')) (EvCreate ''/tmp/out/a.bin'' None)
         (new_events ex_empty (snd (invoke env_200 (CallCreate (ex_req ex_model)) ex_empty)))"
  by (simp add: ex_Create_200 new_events_def) (simp add: ex_defs)

text \<open>
  Claim C3, amended. Within any single \<^verbatim>\<open>Create\<close>, \<^verbatim>\<open>Read\<close> or \<^verbatim>\<open>Update\<close> invocation that
  reaches the write of the bytes \<open>bs\<close> to the destination file, the last four effects
  are, in this order: the destination file is created or truncated, the entire
  response body \<open>bs\<close> is read into memory, the checksums are computed from \<open>bs\<close>, and
  \<open>bs\<close> is written to the file. The write is the last effect of the invocation and
  never precedes the checksum computation.
\<close>

theorem download_order:
  assumes "invoke env c w = (resp, w')"
      and "EvWrite path bs out \<in> set (new_events w w')"
  shows "(\<exists>pre. new_events w w' =
            pre @ [EvCreate path None, EvReadAll (Inr bs), EvChecksums bs,
                   EvWrite path bs out])
       \<and> precedes (EvCreate path None) (EvReadAll (Inr bs)) (new_events w w')
       \<and> precedes (EvReadAll (Inr bs)) (EvChecksums bs) (new_events w w')
       \<and> precedes (EvChecksums bs) (EvWrite path bs out) (new_events w w')
       \<and> \<not> precedes (EvWrite path bs out) (EvChecksums bs) (new_events w w')"
  using assms
  by (cases c)
    (auto simp: Create_def Read_def Update_def downloadFile_def emit_def Let_def
      new_events_def
      split: option.splits sum.splits prod.splits if_splits)

theorem download_order_witness:
  "EvWrite ''/tmp/out/a.bin'' ''abc'' None
     \<in> set (new_events ex_empty (snd (invoke env_200 (CallCreate (ex_req ex_model)) ex_empty)))
   \<and> precedes (EvCreate ''/tmp/out/a.bin'' None) (EvReadAll (Inr ''abc''))
       (new_events ex_empty (snd (invoke env_200 (CallCreate (ex_req ex_model)) ex_empty)))
   \<and> precedes (EvReadAll (Inr ''abc'')) (EvChecksums ''abc'')
       (new_events ex_empty (snd (invoke env_200 (CallCreate (ex_req ex_model)) ex_empty)))
   \<and> precedes (EvChecksums ''abc'') (EvWrite ''/tmp/out/a.bin'' ''abc'' None)
       (new_events ex_empty (snd (invoke env_200 (CallCreate (ex_req ex_model)) ex_empty)))"
  using download_order [where env = env_200 and c = "CallCreate (ex_req ex_model)"
      and w = ex_empty and path = "''/tmp/out/a.bin''" and bs = "''abc''" and out = None
      and resp = "fst (invoke env_200 (CallCreate (ex_req ex_model)) ex_empty)"
      and w' = "snd (invoke env_200 (CallCreate (ex_req ex_model)) ex_empty)"]
  by (simp add: ex_Create_200 new_events_def) (simp add: ex_defs)

section \<open>Every invocation: the method of the request\<close>

text \<open>
  Claim C8. For every \<^verbatim>\<open>Create\<close>, \<^verbatim>\<open>Read\<close> or \<^verbatim>\<open>Update\<close> invocation whose method
  attribute (of the plan, for \<^verbatim>\<open>Read\<close> of the state) is one that the schema's validator
  lets through, or is the empty string, the method of every request it builds is
  \<open>GET\<close> whenever the attribute is null (or unknown) or the empty string, and
  otherwise is the given method value.
\<close>

theorem request_method:
  assumes "invoke env c w = (resp, w')"
      and "meth \<in> set (request_methods (new_events w w'))"
      and "method_OneOf (Method (call_model c)) \<or> Method (call_model c) = StringValue []"
  shows "meth =
           (if IsNull (Method (call_model c)) \<or> ValueString (Method (call_model c)) = []
            then ''GET'' else ValueString (Method (call_model c)))"
proof -
  have built: "meth = method_of env (call_model c)"
    using assms(1,2) by (rule request_method_upper)
  show ?thesis
  proof (cases "Method (call_model c)")
    case StringNull
    then show ?thesis using built by simp
  next
    case StringUnknown
    then show ?thesis using built by simp
  next
    case (StringValue s)
    then have "s = [] \<or> s = ''GET'' \<or> s = ''POST''"
      using assms(3) by (auto simp: method_OneOf_def)
    then show ?thesis
      using built StringValue
      by (auto simp: strings_ToUpper_GET strings_ToUpper_POST)
  qed
qed

text \<open>The example, twice: the empty method, and the method \<open>POST\<close>.\<close>

theorem request_method_witness:
  "''GET'' \<in> set (request_methods
       (new_events ex_empty (snd (invoke env_200 (CallCreate (ex_req ex_model)) ex_empty))))
   \<and> Method (call_model (CallCreate (ex_req ex_model))) = StringValue []
   \<and> ''POST'' \<in> set (request_methods
       (new_events ex_empty
          (snd (invoke env_200
                  (CallCreate (ex_req (ex_model\<lparr>Method := StringValue ''POST''\<rparr>))) ex_empty))))
   \<and> method_OneOf
       (Method (call_model (CallCreate (ex_req (ex_model\<lparr>Method := StringValue ''POST''\<rparr>)))))
   \<and> ''POST'' =
       ValueString
         (Method (call_model (CallCreate (ex_req (ex_model\<lparr>Method := StringValue ''POST''\<rparr>)))))"
  using request_method [where env = env_200 and c = "CallCreate (ex_req ex_model)"
      and w = ex_empty and meth = "''GET''"
      and resp = "fst (invoke env_200 (CallCreate (ex_req ex_model)) ex_empty)"
      and w' = "snd (invoke env_200 (CallCreate (ex_req ex_model)) ex_empty)"]
    request_method [where env = env_200
      and c = "CallCreate (ex_req (ex_model\<lparr>Method := StringValue ''POST''\<rparr>))"
      and w = ex_empty and meth = "''POST''"
      and resp = "fst (invoke env_200
          (CallCreate (ex_req (ex_model\<lparr>Method := StringValue ''POST''\<rparr>))) ex_empty)"
      and w' = "snd (invoke env_200
          (CallCreate (ex_req (ex_model\<lparr>Method := StringValue ''POST''\<rparr>))) ex_empty)"]
  by (simp add: ex_defs run_defs method_OneOf_def strings_ToUpper_POST)

section \<open>Every invocation: a response body that cannot be read\<close>

text \<open>
  Claim C10. For every \<^verbatim>\<open>Create\<close>, \<^verbatim>\<open>Read\<close> or \<^verbatim>\<open>Update\<close> invocation in which the server
  answers with status 200 and reading the response body fails, the destination file
  was created (truncated) before the body was read; the response carries the error
  diagnostic \<open>Download Failed\<close> with the read error, no state is set or removed, and
  the file at the destination path is left empty.
\<close>

theorem body_read_failure:
  assumes "invoke env c w = (resp, w')"
      and "EvDo meth url (Inr r) \<in> set (new_events w w')"
      and "StatusCode r = 200"
      and "EvReadAll (Inl err) \<in> set (new_events w w')"
  shows "precedes (EvCreate (ValueString (Filename (call_model c))) None) (EvReadAll (Inl err))
           (new_events w w')
       \<and> ErrorDiagnostic ''Download Failed'' err \<in> set (Diagnostics resp)
       \<and> HasError (Diagnostics resp)
       \<and> State resp = StateUntouched
       \<and> files w' (ValueString (Filename (call_model c))) = Some []"
  using assms
  by (cases c)
    (auto simp: Create_def Read_def Update_def downloadFile_def emit_def Let_def
      new_events_def HasError_def
      split: option.splits sum.splits prod.splits if_splits)

text \<open>The example: the body of the 200 answer breaks off; the file held \<open>old\<close>.\<close>

theorem body_read_failure_witness:
  "EvDo ''GET'' ''http://h/a.bin'' (Inr ex_cut)
     \<in> set (new_events ex_disk (snd (invoke env_cut (CallCreate (ex_req ex_model)) ex_disk)))
   \<and> StatusCode ex_cut = 200
   \<and> EvReadAll (Inl ''unexpected EOF'')
       \<in> set (new_events ex_disk (snd (invoke env_cut (CallCreate (ex_req ex_model)) ex_disk)))
   \<and> files ex_disk ''/tmp/out/a.bin'' = Some ''old''
   \<and> Diagnostics (fst (invoke env_cut (CallCreate (ex_req ex_model)) ex_disk)) =
       [ErrorDiagnostic ''Download Failed'' ''unexpected EOF'']
   \<and> State (fst (invoke env_cut (CallCreate (ex_req ex_model)) ex_disk)) = StateUntouched
   \<and> files (snd (invoke env_cut (CallCreate (ex_req ex_model)) ex_disk)) ''/tmp/out/a.bin'' =
       Some []"
  using body_read_failure [where env = env_cut and c = "CallCreate (ex_req ex_model)"
      and w = ex_disk and meth = "''GET''" and url = "''http://h/a.bin''" and r = ex_cut
      and err = "''unexpected EOF''"
      and resp = "fst (invoke env_cut (CallCreate (ex_req ex_model)) ex_disk)"
      and w' = "snd (invoke env_cut (CallCreate (ex_req ex_model)) ex_disk)"]
  by (simp add: ex_Create_cut new_events_def) (simp add: ex_defs)

section \<open>The persisted states\<close>

text \<open>
  Claim C7. After every successful \<^verbatim>\<open>Create\<close>, \<^verbatim>\<open>Read\<close> or \<^verbatim>\<open>Update\<close> (one that sets a
  state), the id of the persisted state equals its sha1. \<^verbatim>\<open>Create\<close>, \<^verbatim>\<open>Read\<close> and the
  fetching branch of \<^verbatim>\<open>Update\<close> set both from the same checksum; the skip branch of
  \<^verbatim>\<open>Update\<close> persists the previous state as it is, which is a state that an earlier
  invocation persisted.
\<close>

theorem id_equals_sha1:
  assumes "persisted m"
  shows "ID m = Sha1 m"
  using assms
proof (induction rule: persisted.induct)
  case (after_Create env req w resp w' m)
  then show ?case
    by (auto simp: Create_def Let_def split: if_splits prod.splits sum.splits)
next
  case (after_Read req env w resp w' m)
  then show ?case
    by (auto simp: Read_def Let_def split: if_splits prod.splits sum.splits)
next
  case (after_Update req_state env req_plan w resp w' m)
  then show ?case
    by (auto simp: Update_def Let_def split: if_splits prod.splits sum.splits)
qed

text \<open>
  The example: the state that \<^verbatim>\<open>Create\<close> persists, and the state that the skip branch of
  \<^verbatim>\<open>Update\<close> persists after it.
\<close>

theorem id_equals_sha1_witness:
  "persisted ex_state
   \<and> State (fst (Update env_200 (ex_req ex_model) (ex_req ex_state) ex_disk)) = StateSet ex_state
   \<and> ID ex_state = Sha1 ex_state"
proof -
  have created: "persisted ex_state"
    by (rule after_Create [OF ex_Create_200]) simp
  have skipped: "State (fst (Update env_200 (ex_req ex_model) (ex_req ex_state) ex_disk)) =
      StateSet ex_state"
    by (simp add: ex_defs run_defs)
  have "persisted ex_state"
  proof (rule after_Update)
    show "persisted (Get_model (ex_req ex_state))"
      by (simp add: ex_req_def created)
    show "Update env_200 (ex_req ex_model) (ex_req ex_state) ex_disk =
        (fst (Update env_200 (ex_req ex_model) (ex_req ex_state) ex_disk),
         snd (Update env_200 (ex_req ex_model) (ex_req ex_state) ex_disk))"
      by simp
    show "State (fst (Update env_200 (ex_req ex_model) (ex_req ex_state) ex_disk)) =
        StateSet ex_state"
      by (rule skipped)
  qed
  then show ?thesis
    using id_equals_sha1 [of ex_state] skipped by simp
qed

end
